theory Spec2Isabelle
  imports Main "HOL-Library.Word"
begin

unbundle bit_operations_syntax

section \<open>Values, errors and contexts\<close>

text \<open>
  Go's \<open>any\<close> at the model boundary holds JSON-like values. A \<open>map[string]any\<close> is a
  partial function from keys to values; a nested object is kept as an association list.
  The tools read strings and arrays and write strings, integers and an empty array, so
  a number is kept as an integer.
\<close>

datatype any =
    AnyNil
  | AnyString string
  | AnyInt int
  | AnyBool bool
  | AnyList "any list"
  | AnyMap "(string \<times> any) list"

type_synonym anymap = "string \<rightharpoonup> any"

text \<open>
  A Go \<open>error\<close> is read only through \<open>Error()\<close>. \<open>fmt.Errorf\<close> builds one from its formatted
  message; the two errors of package \<open>context\<close> are kept apart from it, since callers tell
  cancellation from an ordinary failure.
\<close>

datatype error = Errorf string | Canceled | DeadlineExceeded

fun Error :: "error \<Rightarrow> string" where
  "Error (Errorf s) = s"
| "Error Canceled = ''context canceled''"
| "Error DeadlineExceeded = ''context deadline exceeded''"

text \<open>
  A \<open>context.Context\<close> as the tools use it: \<open>Done k\<close> tells whether the channel
  \<open>ctx.Done()\<close> is closed at the \<open>k\<close>-th time it is polled, \<open>Err\<close> is what \<open>ctx.Err()\<close> returns
  once it is closed. \<open>context.Background()\<close> is never closed, so its \<open>Err\<close> is never read.
\<close>

record Context =
  Done :: "nat \<Rightarrow> bool"
  Err :: error

definition Background :: Context where
  "Background = \<lparr>Done = (\<lambda>_. False), Err = Canceled\<rparr>"

section \<open>The model client's messages (package genai)\<close>

record function_call =
  call_Name :: string
  call_Args :: anymap

record function_response =
  resp_Name :: string
  resp_Response :: anymap

record Part =
  Text :: string
  FunctionCall :: "function_call option"
  FunctionResponse :: "function_response option"

record content =
  Parts :: "Part list"

record candidate =
  Content :: "content option"

record response =
  Candidates :: "candidate list"

record FunctionDeclaration =
  Name :: string
  Description :: string
  Required :: "string list"

section \<open>The Tool interface and the registry (tools/tool.go, main.go)\<close>

text \<open>
  \<open>Execute\<close> may do anything to the outside world; the world is a state of type \<open>'w\<close>
  passed through the call. Go's pair \<open>(map[string]any, error)\<close> is a sum: the orchestrator
  looks at the map only when the error is nil.
\<close>

record 'w Tool =
  Declaration :: FunctionDeclaration
  Execute :: "Context \<Rightarrow> anymap \<Rightarrow> 'w \<Rightarrow> (error + anymap) \<times> 'w"

text \<open>
  The registry \<open>map[string]tools.Tool\<close> is an association list read with \<open>map_of\<close>, so that
  \<open>range\<close> over it can be written.
\<close>

type_synonym 'w registry = "(string \<times> 'w Tool) list"

text \<open>
  The state of a run of \<open>main\<close>: the chat session held by the model client, the outside
  world, and three logs: every call of a tool's \<open>Execute\<close> (name and arguments), every
  argument list given to \<open>chat.SendMessage\<close>, and every line written to standard output.
\<close>

record ('c, 'w) session =
  chat :: 'c
  world :: 'w
  executed :: "(string \<times> anymap) list"
  sent :: "Part list list"
  printed :: "string list"

type_synonym 'c send_message = "'c \<Rightarrow> Part list \<Rightarrow> (error + response option) \<times> 'c"

text \<open>main.go, lines 159 to 166: look the tool up by name and call it, or make the error.\<close>

definition dispatch ::
  "'w registry \<Rightarrow> Context \<Rightarrow> function_call \<Rightarrow> ('c, 'w) session
     \<Rightarrow> (error + anymap) \<times> ('c, 'w) session" where
  "dispatch toolRegistry ctx call st =
     (case map_of toolRegistry (call_Name call) of
        Some tool \<Rightarrow>
          (case Execute tool ctx (call_Args call) (world st) of
             (r, w') \<Rightarrow>
               (r, st\<lparr>world := w',
                      executed := executed st @ [(call_Name call, call_Args call)]\<rparr>))
      | None \<Rightarrow> (Inl (Errorf (''unknown tool: '' @ call_Name call)), st))"

text \<open>main.go, lines 168 to 185: the function-response part for a call's outcome.\<close>

definition tool_response :: "function_call \<Rightarrow> error + anymap \<Rightarrow> Part" where
  "tool_response call r =
     (case r of
        Inl toolErr \<Rightarrow>
          \<lparr>Text = '''', FunctionCall = None,
           FunctionResponse = Some \<lparr>resp_Name = call_Name call,
             resp_Response = [''error'' \<mapsto> AnyString (Error toolErr)]\<rparr>\<rparr>
      | Inr toolResult \<Rightarrow>
          \<lparr>Text = '''', FunctionCall = None,
           FunctionResponse = Some \<lparr>resp_Name = call_Name call,
             resp_Response = toolResult\<rparr>\<rparr>)"

text \<open>
  main.go, lines 154 to 189: the body of the loop over the parts of one candidate. The
  accumulator is the state with \<open>toolResponses\<close> and \<open>modelTextResponse\<close>.
\<close>

fun process_part ::
  "'w registry \<Rightarrow> Context \<Rightarrow> ('c, 'w) session \<times> Part list \<times> string \<Rightarrow> Part
     \<Rightarrow> ('c, 'w) session \<times> Part list \<times> string" where
  "process_part toolRegistry ctx (st, toolResponses, modelTextResponse) part =
     (case FunctionCall part of
        Some call \<Rightarrow>
          (case dispatch toolRegistry ctx call st of
             (r, st') \<Rightarrow> (st', toolResponses @ [tool_response call r], modelTextResponse))
      | None \<Rightarrow>
          (if Text part \<noteq> '''' then (st, toolResponses, modelTextResponse @ Text part)
           else (st, toolResponses, modelTextResponse)))"

text \<open>main.go, lines 150 to 190: the loop over all candidates of the response.\<close>

definition process_candidate ::
  "'w registry \<Rightarrow> Context \<Rightarrow> ('c, 'w) session \<times> Part list \<times> string \<Rightarrow> candidate
     \<Rightarrow> ('c, 'w) session \<times> Part list \<times> string" where
  "process_candidate toolRegistry ctx acc cand =
     (case Content cand of
        None \<Rightarrow> acc
      | Some c \<Rightarrow> foldl (process_part toolRegistry ctx) acc (Parts c))"

definition process_candidates ::
  "'w registry \<Rightarrow> Context \<Rightarrow> ('c, 'w) session \<times> Part list \<times> string \<Rightarrow> candidate list
     \<Rightarrow> ('c, 'w) session \<times> Part list \<times> string" where
  "process_candidates toolRegistry ctx acc cands =
     foldl (process_candidate toolRegistry ctx) acc cands"

text \<open>
  main.go, lines 140 to 205: \<open>toolCallLoop\<close>. The loop has no bound of its own, so the
  model carries fuel, one unit per iteration, and tells a \<open>break\<close> from running out.
\<close>

datatype loop_exit = Break | OutOfFuel

fun toolCallLoop ::
  "nat \<Rightarrow> 'c send_message \<Rightarrow> 'w registry \<Rightarrow> Context \<Rightarrow> response option
     \<Rightarrow> ('c, 'w) session \<Rightarrow> loop_exit \<times> ('c, 'w) session" where
  "toolCallLoop 0 SendMessage toolRegistry ctx resp st = (OutOfFuel, st)"
| "toolCallLoop (Suc fuel) SendMessage toolRegistry ctx resp st =
     (case resp of
        None \<Rightarrow> (Break, st\<lparr>printed := printed st @ [''No response candidates\<newline>'']\<rparr>)
      | Some r \<Rightarrow>
          (if length (Candidates r) = 0
           then (Break, st\<lparr>printed := printed st @ [''No response candidates\<newline>'']\<rparr>)
           else
             (case process_candidates toolRegistry ctx (st, [], '''') (Candidates r) of
                (st1, toolResponses, modelTextResponse) \<Rightarrow>
                  (if length toolResponses > 0
                   then
                     (case SendMessage (chat st1) toolResponses of
                        (Inl sendErr, chat') \<Rightarrow>
                          (Break, st1\<lparr>chat := chat', sent := sent st1 @ [toolResponses]\<rparr>)
                      | (Inr resp', chat') \<Rightarrow>
                          toolCallLoop fuel SendMessage toolRegistry ctx resp'
                            (st1\<lparr>chat := chat', sent := sent st1 @ [toolResponses]\<rparr>))
                   else
                     (Break,
                      if modelTextResponse \<noteq> ''''
                      then st1\<lparr>printed :=
                             printed st1 @ [''Gemini: '' @ modelTextResponse @ ''\<newline>'']\<rparr>
                      else st1)))))"

text \<open>
  main.go, lines 102 to 114: the registry \<open>main\<close> builds, the declarations collected from
  it, and the tool list given to \<open>client.Chats.Create\<close>.
\<close>

definition toolRegistry :: "'w registry" where
  "toolRegistry = []"

definition functionDeclarations :: "'w registry \<Rightarrow> FunctionDeclaration list" where
  "functionDeclarations reg = map (\<lambda>(name, tool). Declaration tool) reg"

definition genaiTools :: "'w registry \<Rightarrow> FunctionDeclaration list list" where
  "genaiTools reg =
     (if length (functionDeclarations reg) > 0 then [functionDeclarations reg] else [])"

text \<open>
  main.go, lines 123 to 206: the loop over the lines of standard input. A line is sent as
  one text part; a transport error skips the line.
\<close>

definition text_part :: "string \<Rightarrow> Part" where
  "text_part s = \<lparr>Text = s, FunctionCall = None, FunctionResponse = None\<rparr>"

fun input_loop ::
  "nat \<Rightarrow> 'c send_message \<Rightarrow> 'w registry \<Rightarrow> Context \<Rightarrow> string list
     \<Rightarrow> ('c, 'w) session \<Rightarrow> loop_exit \<times> ('c, 'w) session" where
  "input_loop fuel SendMessage reg ctx [] st = (Break, st\<lparr>printed := printed st @ [''> '']\<rparr>)"
| "input_loop fuel SendMessage reg ctx (input # rest) st =
     (if input = ''quit'' then (Break, st\<lparr>printed := printed st @ [''> '']\<rparr>)
      else
        (case SendMessage (chat st) [text_part input] of
           (Inl err, chat') \<Rightarrow>
             input_loop fuel SendMessage reg ctx rest
               (st\<lparr>chat := chat', sent := sent st @ [[text_part input]],
                   printed := printed st @ [''> '']\<rparr>)
         | (Inr resp, chat') \<Rightarrow>
             (case toolCallLoop fuel SendMessage reg ctx resp
                     (st\<lparr>chat := chat', sent := sent st @ [[text_part input]],
                         printed := printed st @ [''> '']\<rparr>) of
                (OutOfFuel, st') \<Rightarrow> (OutOfFuel, st')
              | (Break, st') \<Rightarrow> input_loop fuel SendMessage reg ctx rest st')))"

text \<open>
  main.go, lines 87 to 121: start-up. The credential, the client constructor and the chat
  constructor belong to the environment; each failure is fatal.
\<close>

definition main ::
  "nat \<Rightarrow> string \<Rightarrow> (string \<Rightarrow> error + 'k)
     \<Rightarrow> ('k \<Rightarrow> string \<Rightarrow> FunctionDeclaration list list \<Rightarrow> error + 'c)
     \<Rightarrow> 'c send_message \<Rightarrow> string list \<Rightarrow> 'w
     \<Rightarrow> string + loop_exit \<times> ('c, 'w) session" where
  "main fuel apiKey NewClient ChatsCreate SendMessage inputs w =
     (if apiKey = '''' then Inl ''GEMINI_API_KEY environment variable not set''
      else
        (case NewClient apiKey of
           Inl err \<Rightarrow> Inl (Error err)
         | Inr client \<Rightarrow>
             (case ChatsCreate client ''gemini-1.5-flash''
                     (genaiTools (toolRegistry :: 'w registry)) of
                Inl err \<Rightarrow> Inl (Error err)
              | Inr c \<Rightarrow>
                  Inr (input_loop fuel SendMessage toolRegistry Background inputs
                         \<lparr>chat = c, world = w, executed = [], sent = [],
                          printed = [''Enter your messages (type 'quit' to exit):\<newline>'']\<rparr>))))"

section \<open>The platform the tools run on\<close>

text \<open>
  Both tools call into Go's standard library and the operating system. What those calls
  return is taken as a parameter. \<open>Join\<close> is \<open>filepath.Join\<close>; \<open>Sprint\<close> is the text
  \<open>fmt\<close> gives a value under the verb \<open>%v\<close>.
\<close>

record platform =
  Join :: "string \<Rightarrow> string \<Rightarrow> string"
  Sprint :: "any \<Rightarrow> string"

section \<open>The shell-command tool (tools/run_shell_command.go)\<close>

text \<open>
  \<open>syscall.WaitStatus\<close> on Linux is a \<open>uint32\<close>: the low seven bits are 0 for a process
  that exited, \<open>0x7F\<close> for a stopped one and the signal number otherwise; the exit code is
  in the next byte. The four methods below are those of Go's package \<open>syscall\<close>.
\<close>

type_synonym WaitStatus = "32 word"

definition Exited :: "WaitStatus \<Rightarrow> bool" where
  "Exited w = (w AND 0x7F = 0x00)"

definition Signaled :: "WaitStatus \<Rightarrow> bool" where
  "Signaled w = (w AND 0x7F \<noteq> 0x7F \<and> w AND 0x7F \<noteq> 0x00)"

definition ExitStatus :: "WaitStatus \<Rightarrow> int" where
  "ExitStatus w = (if \<not> Exited w then - 1 else uint (drop_bit 8 w) AND 0xFF)"

definition Signal :: "WaitStatus \<Rightarrow> int" where
  "Signal w = (if \<not> Signaled w then - 1 else uint (w AND 0x7F))"

text \<open>
  What \<open>cmd.Wait()\<close> sends on the channel \<open>done\<close>: \<open>None\<close> is a nil error. An
  \<open>*exec.ExitError\<close> carries its message and the value of \<open>Sys()\<close>, which is a
  \<open>syscall.WaitStatus\<close> or something else (\<open>None\<close>). Any other error carries its
  message.
\<close>

datatype wait_error = ExitError string "WaitStatus option" | OtherError string

text \<open>
  The \<open>select\<close> of lines 94 to 119 has two cases. Which of them fires depends on the
  scheduler and on when the context is cancelled and the process exits; the model takes
  it as an input. The cancellation case can fire only for a context that is done; an
  environment that pairs it with a context that never is describes no run, and what is
  proved of every environment holds of the real ones.
\<close>

datatype select_case = CtxDone | WaitDone

record process_env = platform +
  Start :: "string list \<Rightarrow> string \<Rightarrow> error + int"
  select :: select_case
  Wait :: "wait_error option"
  Getpgid :: "int \<Rightarrow> int option"
  Stdout :: string
  Stderr :: string

text \<open>
  The calls the executor makes on the process, in the order it makes them: starting
  \<open>argv\<close> in a directory as the leader of a new process group, \<open>syscall.Kill\<close> with its
  two arguments, and the receive from \<open>done\<close>, which blocks until \<open>cmd.Wait()\<close> has
  returned.
\<close>

datatype process_event =
    Started "string list" string
  | Kill int int
  | ReceivedDone

definition SIGTERM :: int where
  "SIGTERM = 15"

text \<open>Lines 90 to 92 and 103 to 118: exit code, signal and error text of a wait result.\<close>

definition decode_status :: "wait_error option \<Rightarrow> int \<times> int \<times> string" where
  "decode_status err =
     (case err of
        Some (ExitError msg sys) \<Rightarrow>
          (case sys of
             Some status \<Rightarrow>
               (ExitStatus status,
                if Signaled status then Signal status else - 1,
                msg)
           | None \<Rightarrow> (- 1, - 1, msg))
      | Some (OtherError msg) \<Rightarrow> (- 1, - 1, msg)
      | None \<Rightarrow> (0, - 1, ''(none)''))"

text \<open>Line 63: the optional argument \<open>directory\<close>; anything but a string reads as empty.\<close>

definition directory_arg :: "anymap \<Rightarrow> string" where
  "directory_arg args = (case args ''directory'' of Some (AnyString d) \<Rightarrow> d | _ \<Rightarrow> '''')"

text \<open>Lines 66 to 70: the working directory of the command.\<close>

definition command_dir :: "string \<Rightarrow> process_env \<Rightarrow> string \<Rightarrow> string" where
  "command_dir ProjectRoot env dir =
     (if dir \<noteq> '''' then Join env ProjectRoot dir else ProjectRoot)"

text \<open>
  Lines 57 to 141. The result is the list of calls made on the process and Go's pair
  \<open>(map[string]any, error)\<close> as a sum.
\<close>

definition RunShellCommandTool_Execute ::
  "string \<Rightarrow> process_env \<Rightarrow> Context \<Rightarrow> anymap \<Rightarrow> process_event list \<times> (error + anymap)" where
  "RunShellCommandTool_Execute ProjectRoot env ctx args =
     (case args ''command'' of
        Some (AnyString cmdStr) \<Rightarrow>
          (let dir = directory_arg args;
               argv = [''bash'', ''-c'', cmdStr];
               cmdDir = command_dir ProjectRoot env dir
           in
             (case Start env argv cmdDir of
                Inl err \<Rightarrow> ([], Inl (Errorf (''failed to start command: '' @ Error err)))
              | Inr pid \<Rightarrow>
                  (case select env of
                     CtxDone \<Rightarrow>
                       ([Started argv cmdDir]
                          @ (case Getpgid env pid of
                               Some pgid \<Rightarrow> [Kill (- pgid) SIGTERM]
                             | None \<Rightarrow> [])
                          @ [ReceivedDone],
                        Inl (Err ctx))
                   | WaitDone \<Rightarrow>
                       (case decode_status (Wait env) of
                          (exitCode, signal, cmdErr) \<Rightarrow>
                            (let pgid = (case Getpgid env pid of Some p \<Rightarrow> p | None \<Rightarrow> - 1)
                             in
                               ([Started argv cmdDir, ReceivedDone],
                                Inr [''Command'' \<mapsto> AnyString cmdStr,
                                     ''Directory'' \<mapsto> AnyString dir,
                                     ''Stdout'' \<mapsto> AnyString (Stdout env),
                                     ''Stderr'' \<mapsto> AnyString (Stderr env),
                                     ''Error'' \<mapsto> AnyString cmdErr,
                                     ''Exit Code'' \<mapsto> AnyInt exitCode,
                                     ''Signal'' \<mapsto> AnyInt signal,
                                     ''Background PIDs'' \<mapsto> AnyList [],
                                     ''Process Group PGID'' \<mapsto> AnyInt pgid]))))))
      | _ \<Rightarrow> ([], Inl (Errorf ''missing or invalid 'command' argument'')))"

section \<open>The multi-file reader (tools/run_shell_command.go, second file)\<close>

text \<open>
  The file system as the reader sees it. An error of package \<open>os\<close> is its message and
  what \<open>os.IsNotExist\<close> says of it; a \<open>FileInfo\<close> is read only through \<open>IsDir\<close>. File
  content is a list of bytes.
\<close>

datatype os_error = PathError (IsNotExist: bool) (message: string)

datatype file_info = FileInfo (IsDir: bool)

record file_system = platform +
  Glob :: "string \<Rightarrow> error + string list"
  Stat :: "string \<Rightarrow> os_error + file_info"
  ReadFile :: "string \<Rightarrow> os_error + string"

definition ContainsAny :: "string \<Rightarrow> string \<Rightarrow> bool" where
  "ContainsAny s chars = list_ex (\<lambda>c. c \<in> set chars) s"

text \<open>\<open>bytes.ContainsRune(data, 0)\<close>: rune 0 is the single byte 0.\<close>

definition ContainsRune0 :: "string \<Rightarrow> bool" where
  "ContainsRune0 data = list_ex (\<lambda>c. c = CHR 0x00) data"

text \<open>Lines 215 to 233: every entry of \<open>paths\<close> becomes a path or the matches of a glob.\<close>

fun resolve_paths ::
  "string \<Rightarrow> file_system \<Rightarrow> any list \<Rightarrow> string list \<Rightarrow> error + string list" where
  "resolve_paths ProjectRoot fs [] filePaths = Inr filePaths"
| "resolve_paths ProjectRoot fs (p # paths) filePaths =
     (case p of
        AnyString pattern \<Rightarrow>
          (let absPattern = Join fs ProjectRoot pattern in
             if ContainsAny pattern ''*?[]''
             then
               (case Glob fs absPattern of
                  Inl err \<Rightarrow>
                    Inl (Errorf (''error globbing pattern '' @ pattern @ '': '' @ Error err))
                | Inr matches \<Rightarrow> resolve_paths ProjectRoot fs paths (filePaths @ matches))
             else resolve_paths ProjectRoot fs paths (filePaths @ [absPattern]))
      | _ \<Rightarrow> Inl (Errorf (''invalid path pattern: '' @ Sprint fs p)))"

text \<open>Lines 235 to 243: the first occurrence of every path, in order.\<close>

fun unique_paths :: "(string \<Rightarrow> bool) \<Rightarrow> string list \<Rightarrow> string list \<Rightarrow> string list" where
  "unique_paths seen [] uniqueFilePaths = uniqueFilePaths"
| "unique_paths seen (p # filePaths) uniqueFilePaths =
     (if \<not> seen p then unique_paths (seen(p := True)) filePaths (uniqueFilePaths @ [p])
      else unique_paths seen filePaths uniqueFilePaths)"

text \<open>Lines 253 to 278: what one path adds to the content.\<close>

definition file_entry :: "file_system \<Rightarrow> string \<Rightarrow> string" where
  "file_entry fs filePath =
     (case Stat fs filePath of
        Inl err \<Rightarrow>
          (if IsNotExist err then ''---'' @ filePath @ '' (Not Found)---\<newline>''
           else ''---'' @ filePath @ '' (Error: '' @ message err @ '')---\<newline>'')
      | Inr fileInfo \<Rightarrow>
          (if IsDir fileInfo then ''---'' @ filePath @ '' (Directory)---\<newline>''
           else
             (case ReadFile fs filePath of
                Inl err \<Rightarrow>
                  ''---'' @ filePath @ '' (Error reading: '' @ message err @ '')---\<newline>''
              | Inr data \<Rightarrow>
                  (if ContainsRune0 data
                   then ''---'' @ filePath @ '' (Binary File, content not included)---\<newline>''
                   else ''---'' @ filePath @ '' --- '' @ data @ ''\<newline>''))))"

text \<open>
  Lines 245 to 279: the loop over the unique paths; \<open>k\<close> counts the polls of
  \<open>ctx.Done()\<close>, one before each path.
\<close>

fun read_files ::
  "file_system \<Rightarrow> Context \<Rightarrow> nat \<Rightarrow> string list \<Rightarrow> string \<Rightarrow> error + string" where
  "read_files fs ctx k [] contentBuilder = Inr contentBuilder"
| "read_files fs ctx k (filePath # rest) contentBuilder =
     (if Done ctx k then Inl (Err ctx)
      else read_files fs ctx (Suc k) rest (contentBuilder @ file_entry fs filePath))"

definition ReadManyFilesTool_Execute ::
  "string \<Rightarrow> file_system \<Rightarrow> Context \<Rightarrow> anymap \<Rightarrow> error + anymap" where
  "ReadManyFilesTool_Execute ProjectRoot fs ctx args =
     (case args ''paths'' of
        Some (AnyList paths) \<Rightarrow>
          (case resolve_paths ProjectRoot fs paths [] of
             Inl err \<Rightarrow> Inl err
           | Inr filePaths \<Rightarrow>
               (case read_files fs ctx 0 (unique_paths (\<lambda>_. False) filePaths []) [] of
                  Inl err \<Rightarrow> Inl err
                | Inr s \<Rightarrow> Inr [''content'' \<mapsto> AnyString s]))
      | _ \<Rightarrow> Inl (Errorf ''missing or invalid 'paths' argument''))"

section \<open>The orchestrator's contract in the specification's words\<close>

text \<open>
  The parts of a response in the order the specification reads them: candidate by
  candidate, skipping a candidate without content.
\<close>

definition all_parts :: "candidate list \<Rightarrow> Part list" where
  "all_parts cands =
     concat (map (\<lambda>cand. case Content cand of None \<Rightarrow> [] | Some c \<Rightarrow> Parts c) cands)"

definition function_calls :: "response \<Rightarrow> function_call list" where
  "function_calls r = List.map_filter FunctionCall (all_parts (Candidates r))"

text \<open>The text of the parts that are not function calls, joined.\<close>

definition text_of :: "Part list \<Rightarrow> string" where
  "text_of parts = concat (map Text (filter (\<lambda>p. FunctionCall p = None) parts))"

text \<open>
  Step 5 of the specification: every call is resolved and run in the order received, and
  its outcome becomes one result; the results are kept in that order.
\<close>

fun dispatch_all ::
  "'w registry \<Rightarrow> Context \<Rightarrow> ('c, 'w) session \<Rightarrow> function_call list
     \<Rightarrow> ('c, 'w) session \<times> Part list" where
  "dispatch_all reg ctx st [] = (st, [])"
| "dispatch_all reg ctx st (call # calls) =
     (case dispatch reg ctx call st of
        (r, st') \<Rightarrow>
          (case dispatch_all reg ctx st' calls of
             (st'', rs) \<Rightarrow> (st'', tool_response call r # rs)))"

text \<open>A field of the result map of a call that succeeded; an error has no fields.\<close>

definition field :: "error + anymap \<Rightarrow> string \<Rightarrow> any option" where
  "field r k = (case r of Inl err \<Rightarrow> None | Inr m \<Rightarrow> m k)"

section \<open>Example inputs\<close>

text \<open>A tool that counts its calls in the world, a call part, and a fresh session.\<close>

definition bump :: "nat Tool" where
  "bump = \<lparr>Declaration = \<lparr>Name = ''bump'', Description = ''adds one'', Required = []\<rparr>,
            Execute = (\<lambda>ctx args w. (Inr Map.empty, Suc w))\<rparr>"

definition call_part :: "string \<Rightarrow> Part" where
  "call_part n = \<lparr>Text = '''', FunctionCall = Some \<lparr>call_Name = n, call_Args = Map.empty\<rparr>,
                  FunctionResponse = None\<rparr>"

definition session0 :: "(nat, nat) session" where
  "session0 = \<lparr>chat = 0, world = 0, executed = [], sent = [], printed = []\<rparr>"

text \<open>A response with two function calls around a text part, and two model clients.\<close>

definition two_calls :: response where
  "two_calls = \<lparr>Candidates =
     [\<lparr>Content = Some \<lparr>Parts =
        [call_part ''bump'', text_part ''thinking'', call_part ''rm_rf'']\<rparr>\<rparr>]\<rparr>"

definition silent_chat :: "nat send_message" where
  "silent_chat c parts = (Inr None, Suc c)"

definition asks_once :: "nat send_message" where
  "asks_once c parts = (if c = 0 then (Inr (Some two_calls), 1) else (Inr None, Suc c))"

text \<open>Two candidates; only the later one asks for a tool.\<close>

definition first_candidate :: candidate where
  "first_candidate = \<lparr>Content = Some \<lparr>Parts = [text_part ''first'']\<rparr>\<rparr>"

definition later_candidate :: candidate where
  "later_candidate = \<lparr>Content = Some \<lparr>Parts = [call_part ''bump'', text_part ''second'']\<rparr>\<rparr>"

text \<open>
  Platforms for the shell tool: \<open>echo hello\<close> exiting with status 0, the same process
  killed by signal 9 and exiting with status 3, and a cancelled call whose process group
  can and cannot be looked up.
\<close>

definition show_any :: "any \<Rightarrow> string" where
  "show_any v = (case v of AnyBool b \<Rightarrow> (if b then ''true'' else ''false'')
                 | AnyString s \<Rightarrow> s | _ \<Rightarrow> ''<value>'')"

definition echo_env :: process_env where
  "echo_env = \<lparr>Join = (\<lambda>a b. a @ ''/'' @ b), Sprint = show_any,
     Start = (\<lambda>argv dir. Inr 4242), select = WaitDone, Wait = None,
     Getpgid = (\<lambda>pid. Some pid), Stdout = ''hello\<newline>'', Stderr = ''''\<rparr>"

definition echo_args :: anymap where
  "echo_args = [''command'' \<mapsto> AnyString ''echo hello'']"

definition sleep_args :: anymap where
  "sleep_args = [''command'' \<mapsto> AnyString ''sleep 100'', ''directory'' \<mapsto> AnyString ''src'']"

definition cancelled :: Context where
  "cancelled = \<lparr>Done = (\<lambda>_. True), Err = Canceled\<rparr>"

definition cancelled_env :: process_env where
  "cancelled_env = echo_env\<lparr>select := CtxDone, Stdout := ''''\<rparr>"

definition reaped_env :: process_env where
  "reaped_env = echo_env\<lparr>select := CtxDone, Getpgid := (\<lambda>pid. None), Stdout := ''''\<rparr>"

definition killed_env :: process_env where
  "killed_env = echo_env\<lparr>Wait := Some (ExitError ''signal: killed'' (Some 0x0009)), Stdout := ''''\<rparr>"

definition failed_env :: process_env where
  "failed_env = echo_env\<lparr>Wait := Some (ExitError ''exit status 3'' (Some 0x0300)), Stdout := ''''\<rparr>"

text \<open>
  A project directory with a text file, a file holding a null byte, an unreadable file
  and a directory.
\<close>

definition project_fs :: file_system where
  "project_fs = \<lparr>Join = (\<lambda>a b. a @ ''/'' @ b), Sprint = show_any,
     Glob = (\<lambda>pat. if pat = ''/proj/*.txt'' then Inr [''/proj/a.txt'']
                    else if pat = ''/proj/['' then Inl (Errorf ''syntax error in pattern'')
                    else Inr []),
     Stat = (\<lambda>p. if p = ''/proj/a.txt'' \<or> p = ''/proj/bin.txt'' \<or> p = ''/proj/secret''
                  then Inr (FileInfo False)
                  else if p = ''/proj/docs'' then Inr (FileInfo True)
                  else Inl (PathError True (''stat '' @ p @ '': no such file or directory''))),
     ReadFile = (\<lambda>p. if p = ''/proj/a.txt'' then Inr ''hi\<newline>''
                      else if p = ''/proj/bin.txt'' then Inr [CHR ''P'', CHR 0x00, CHR ''K'']
                      else Inl (PathError False (''open '' @ p @ '': permission denied'')))\<rparr>"

definition mixed_paths :: "any list" where
  "mixed_paths = [AnyString ''a.txt'', AnyString ''missing'', AnyString ''docs'',
                  AnyString ''*.txt'', AnyString ''bin.txt'', AnyString ''secret'']"

definition mixed_args :: anymap where
  "mixed_args = [''paths'' \<mapsto> AnyList mixed_paths]"

text \<open>Requests for the file with the null byte alone and for the text file through a glob.\<close>

definition binary_only_args :: anymap where
  "binary_only_args = [''paths'' \<mapsto> AnyList [AnyString ''bin.txt'']]"

definition text_by_glob_args :: anymap where
  "text_by_glob_args = [''paths'' \<mapsto> AnyList [AnyString ''*.txt'']]"

section \<open>Dispatch and the tool-call loop\<close>

lemma dispatch_empty_registry:
  "dispatch [] ctx call st = (Inl (Errorf (''unknown tool: '' @ call_Name call)), st)"
  by (simp add: dispatch_def)

lemma dispatch_not_registered:
  "map_of reg (call_Name call) = None \<Longrightarrow>
   dispatch reg ctx call st = (Inl (Errorf (''unknown tool: '' @ call_Name call)), st)"
  by (simp add: dispatch_def)

lemma dispatch_keeps_session:
  "dispatch reg ctx call st = (r, st') \<Longrightarrow>
   chat st' = chat st \<and> sent st' = sent st \<and> printed st' = printed st"
  by (auto simp: dispatch_def split: option.splits prod.splits)

lemma process_candidates_all_parts:
  "process_candidates reg ctx acc cands = foldl (process_part reg ctx) acc (all_parts cands)"
  unfolding process_candidates_def all_parts_def
  by (induction cands arbitrary: acc) (auto simp: process_candidate_def split: option.splits)

lemma foldl_process_part:
  "foldl (process_part reg ctx) (st, trs, mtr) parts =
     (fst (dispatch_all reg ctx st (List.map_filter FunctionCall parts)),
      trs @ snd (dispatch_all reg ctx st (List.map_filter FunctionCall parts)),
      mtr @ text_of parts)"
proof (induction parts arbitrary: st trs mtr)
  case Nil
  then show ?case by (simp add: text_of_def)
next
  case (Cons p ps)
  show ?case
  proof (cases "FunctionCall p")
    case None
    then show ?thesis using Cons.IH by (simp add: text_of_def)
  next
    case (Some call)
    obtain r st' where d: "dispatch reg ctx call st = (r, st')" by (cases "dispatch reg ctx call st")
    obtain st2 rs where da: "dispatch_all reg ctx st' (List.map_filter FunctionCall ps) = (st2, rs)"
      by (cases "dispatch_all reg ctx st' (List.map_filter FunctionCall ps)")
    show ?thesis using Some d da Cons.IH by (simp add: text_of_def)
  qed
qed

lemma length_dispatch_all: "length (snd (dispatch_all reg ctx st calls)) = length calls"
proof (induction calls arbitrary: st)
  case Nil
  then show ?case by simp
next
  case (Cons c cs)
  obtain r st1 where d: "dispatch reg ctx c st = (r, st1)" by (cases "dispatch reg ctx c st")
  obtain st2 rs where da: "dispatch_all reg ctx st1 cs = (st2, rs)"
    by (cases "dispatch_all reg ctx st1 cs")
  from Cons.IH[of st1] da have "length rs = length cs" by simp
  then show ?case using d da by simp
qed

lemma dispatch_all_keeps_session:
  "dispatch_all reg ctx st calls = (st', rs) \<Longrightarrow>
   chat st' = chat st \<and> sent st' = sent st \<and> printed st' = printed st"
proof (induction calls arbitrary: st st' rs)
  case Nil
  then show ?case by simp
next
  case (Cons c cs)
  obtain r st1 where d: "dispatch reg ctx c st = (r, st1)" by (cases "dispatch reg ctx c st")
  obtain st2 rs2 where da: "dispatch_all reg ctx st1 cs = (st2, rs2)"
    by (cases "dispatch_all reg ctx st1 cs")
  from Cons.prems d da have "st' = st2" by simp
  with Cons.IH[OF da] dispatch_keeps_session[OF d] show ?case by simp
qed

lemma dispatch_all_nth:
  "i < length calls \<Longrightarrow>
   Text (snd (dispatch_all reg ctx st calls) ! i) = '''' \<and>
   FunctionCall (snd (dispatch_all reg ctx st calls) ! i) = None \<and>
   map_option resp_Name (FunctionResponse (snd (dispatch_all reg ctx st calls) ! i))
     = Some (call_Name (calls ! i))"
proof (induction calls arbitrary: st i)
  case Nil
  then show ?case by simp
next
  case (Cons c cs)
  obtain r st1 where d: "dispatch reg ctx c st = (r, st1)" by (cases "dispatch reg ctx c st")
  obtain st2 rs where da: "dispatch_all reg ctx st1 cs = (st2, rs)"
    by (cases "dispatch_all reg ctx st1 cs")
  show ?case
  proof (cases i)
    case 0
    then show ?thesis using d da by (cases r) (simp_all add: tool_response_def)
  next
    case (Suc j)
    then have "j < length cs" using Cons.prems by simp
    from Cons.IH[OF this, of st1] show ?thesis using Suc d da by simp
  qed
qed

lemma toolCallLoop_batch:
  assumes "function_calls r \<noteq> []"
  shows "toolCallLoop (Suc fuel) SendMessage reg ctx (Some r) st =
     (case dispatch_all reg ctx st (function_calls r) of
        (st1, batch) \<Rightarrow>
          (case SendMessage (chat st) batch of
             (Inl sendErr, chat') \<Rightarrow>
               (Break, st1\<lparr>chat := chat', sent := sent st @ [batch]\<rparr>)
           | (Inr resp', chat') \<Rightarrow>
               toolCallLoop fuel SendMessage reg ctx resp'
                 (st1\<lparr>chat := chat', sent := sent st @ [batch]\<rparr>)))"
proof -
  obtain st1 batch where da: "dispatch_all reg ctx st (function_calls r) = (st1, batch)"
    by (cases "dispatch_all reg ctx st (function_calls r)")
  have len: "length batch = length (function_calls r)"
    using length_dispatch_all[of reg ctx st "function_calls r"] da by simp
  with assms have ne: "batch \<noteq> []" by auto
  have cands: "Candidates r \<noteq> []"
    using assms by (auto simp: function_calls_def all_parts_def)
  have pc: "process_candidates reg ctx (st, [], '''') (Candidates r) =
              (st1, batch, text_of (all_parts (Candidates r)))"
    using da by (simp add: process_candidates_all_parts foldl_process_part function_calls_def)
  have keep: "chat st1 = chat st" "sent st1 = sent st"
    using dispatch_all_keeps_session[OF da] by simp_all
  show ?thesis
    using cands ne keep by (simp add: pc da split: prod.splits sum.splits)
qed

lemma dispatch_all_empty_registry:
  "dispatch_all [] ctx st calls =
     (st, map (\<lambda>call. tool_response call (Inl (Errorf (''unknown tool: '' @ call_Name call)))) calls)"
  by (induction calls arbitrary: st) (simp_all add: dispatch_empty_registry)

lemma process_candidates_empty_registry:
  "fst (process_candidates [] ctx (st, trs, mtr) cands) = st"
  by (simp add: process_candidates_all_parts foldl_process_part dispatch_all_empty_registry)

lemma toolCallLoop_empty_registry:
  "executed (snd (toolCallLoop fuel SendMessage [] ctx resp st)) = executed st \<and>
   world (snd (toolCallLoop fuel SendMessage [] ctx resp st)) = world st"
proof (induction fuel arbitrary: resp st)
  case 0
  then show ?case by simp
next
  case (Suc fuel)
  show ?case
  proof (cases resp)
    case None
    then show ?thesis by simp
  next
    case (Some r)
    obtain st1 trs mtr where pc:
      "process_candidates [] ctx (st, [], '''') (Candidates r) = (st1, trs, mtr)"
      by (cases "process_candidates [] ctx (st, [], '''') (Candidates r)")
    have st1: "st1 = st"
      using process_candidates_empty_registry[of ctx st "[]" "''''" "Candidates r"] pc by simp
    obtain res c' where sm: "SendMessage (chat st) trs = (res, c')"
      by (cases "SendMessage (chat st) trs")
    show ?thesis
    proof (cases res)
      case (Inl e)
      then show ?thesis using Some pc st1 sm by simp
    next
      case (Inr resp')
      then show ?thesis using Some pc st1 sm Suc.IH by simp
    qed
  qed
qed

lemma input_loop_empty_registry:
  "executed (snd (input_loop fuel SendMessage [] ctx inputs st)) = executed st \<and>
   world (snd (input_loop fuel SendMessage [] ctx inputs st)) = world st"
proof (induction inputs arbitrary: st)
  case Nil
  then show ?case by simp
next
  case (Cons input rest)
  obtain res c' where sm: "SendMessage (chat st) [text_part input] = (res, c')"
    by (cases "SendMessage (chat st) [text_part input]")
  let ?st0 = "st\<lparr>chat := c', sent := sent st @ [[text_part input]], printed := printed st @ [''> '']\<rparr>"
  show ?case
  proof (cases "input = ''quit''")
    case True
    then show ?thesis by simp
  next
    case False
    show ?thesis
    proof (cases res)
      case (Inl e)
      then show ?thesis using False sm Cons.IH[of ?st0] by simp
    next
      case (Inr resp)
      obtain ex st' where tl: "toolCallLoop fuel SendMessage [] ctx resp ?st0 = (ex, st')"
        by (cases "toolCallLoop fuel SendMessage [] ctx resp ?st0")
      have keep: "executed st' = executed st \<and> world st' = world st"
        using toolCallLoop_empty_registry[of fuel SendMessage ctx resp ?st0] tl by simp
      show ?thesis
      proof (cases ex)
        case Break
        then show ?thesis using False sm Inr tl keep Cons.IH[of st'] by simp
      next
        case OutOfFuel
        then show ?thesis using False sm Inr tl keep by simp
      qed
    qed
  qed
qed

section \<open>Exit status and result fields of the shell tool\<close>

lemma Signaled_not_Exited: "Signaled w \<Longrightarrow> \<not> Exited w"
  by (simp add: Signaled_def Exited_def)

lemma Signal_of_Signaled: "Signaled w \<Longrightarrow> Signal w \<noteq> - 1"
proof -
  assume s: "Signaled w"
  have "0 \<le> uint (w AND 0x7F)" by (rule uint_ge_0)
  then have "uint (w AND 0x7F) \<noteq> - 1" by linarith
  then show ?thesis using s by (simp add: Signal_def)
qed

lemma decode_status_exclusive:
  "decode_status err = (exitCode, signal, cmdErr) \<Longrightarrow> signal \<noteq> - 1 \<Longrightarrow> exitCode = - 1"
  by (auto simp: decode_status_def ExitStatus_def Signaled_not_Exited
      split: option.splits wait_error.splits if_splits)

lemma decode_status_exited:
  "decode_status (Some (ExitError msg (Some status))) = (exitCode, signal, cmdErr) \<Longrightarrow>
   Exited status \<Longrightarrow> signal = - 1 \<and> exitCode = uint (drop_bit 8 status) AND 0xFF"
  by (auto simp: decode_status_def ExitStatus_def Signaled_def Exited_def)

lemma decode_status_signaled:
  "decode_status (Some (ExitError msg (Some status))) = (exitCode, signal, cmdErr) \<Longrightarrow>
   Signaled status \<Longrightarrow> signal = uint (status AND 0x7F) \<and> signal \<noteq> - 1 \<and> exitCode = - 1"
  using Signal_of_Signaled[of status]
  by (auto simp: decode_status_def ExitStatus_def Signal_def Signaled_not_Exited)

lemma Execute_result_fields:
  assumes "snd (RunShellCommandTool_Execute ProjectRoot env ctx args) = Inr res"
  shows "\<exists>cmdStr pid. args ''command'' = Some (AnyString cmdStr) \<and>
     Start env [''bash'', ''-c'', cmdStr] (command_dir ProjectRoot env (directory_arg args)) = Inr pid \<and>
     select env = WaitDone \<and>
     res = [''Command'' \<mapsto> AnyString cmdStr,
            ''Directory'' \<mapsto> AnyString (directory_arg args),
            ''Stdout'' \<mapsto> AnyString (Stdout env),
            ''Stderr'' \<mapsto> AnyString (Stderr env),
            ''Error'' \<mapsto> AnyString (snd (snd (decode_status (Wait env)))),
            ''Exit Code'' \<mapsto> AnyInt (fst (decode_status (Wait env))),
            ''Signal'' \<mapsto> AnyInt (fst (snd (decode_status (Wait env)))),
            ''Background PIDs'' \<mapsto> AnyList [],
            ''Process Group PGID'' \<mapsto> AnyInt (case Getpgid env pid of Some p \<Rightarrow> p | None \<Rightarrow> - 1)]"
proof -
  from assms obtain cmdStr where c: "args ''command'' = Some (AnyString cmdStr)"
    by (auto simp: RunShellCommandTool_Execute_def split: option.splits any.splits)
  from assms c obtain pid where
    p: "Start env [''bash'', ''-c'', cmdStr] (command_dir ProjectRoot env (directory_arg args)) = Inr pid"
    by (auto simp: RunShellCommandTool_Execute_def Let_def split: sum.splits)
  from assms c p have w: "select env = WaitDone"
    by (auto simp: RunShellCommandTool_Execute_def Let_def split: select_case.splits)
  obtain exitCode signal cmdErr where d: "decode_status (Wait env) = (exitCode, signal, cmdErr)"
    by (cases "decode_status (Wait env)")
  from assms c p w d show ?thesis
    by (simp add: RunShellCommandTool_Execute_def Let_def)
qed

section \<open>The reader's loops\<close>

lemma ContainsRune0_iff: "ContainsRune0 data \<longleftrightarrow> CHR 0x00 \<in> set data"
  by (auto simp: ContainsRune0_def list_ex_iff)

lemma read_files_no_cancel:
  "\<forall>k. \<not> Done ctx k \<Longrightarrow>
   read_files fs ctx k ps acc = Inr (acc @ concat (map (file_entry fs) ps))"
  by (induction ps arbitrary: k acc) simp_all

lemma unique_paths_set:
  "set (unique_paths seen ps acc) = set acc \<union> {p \<in> set ps. \<not> seen p}"
  by (induction ps arbitrary: seen acc) auto

lemma resolve_paths_ok:
  assumes "\<forall>p \<in> set paths. \<exists>pattern. p = AnyString pattern"
    and "\<forall>pattern. AnyString pattern \<in> set paths \<and> ContainsAny pattern ''*?[]'' \<longrightarrow>
           (\<exists>matches. Glob fs (Join fs root pattern) = Inr matches)"
  shows "\<exists>filePaths. resolve_paths root fs paths acc = Inr filePaths"
  using assms
proof (induction paths arbitrary: acc)
  case Nil
  then show ?case by simp
next
  case (Cons p ps)
  from Cons.prems(1) obtain pattern where p: "p = AnyString pattern" by auto
  have ih: "\<And>acc'. \<exists>filePaths. resolve_paths root fs ps acc' = Inr filePaths"
    using Cons.IH Cons.prems by auto
  show ?case
  proof (cases "ContainsAny pattern ''*?[]''")
    case True
    with Cons.prems(2) p obtain matches where "Glob fs (Join fs root pattern) = Inr matches"
      by auto
    then show ?thesis using p True ih[of "acc @ matches"] by (simp add: Let_def)
  next
    case False
    then show ?thesis using p ih[of "acc @ [Join fs root pattern]"] by (simp add: Let_def)
  qed
qed

lemma resolve_paths_keeps_acc:
  "resolve_paths root fs paths acc = Inr filePaths \<Longrightarrow> set acc \<subseteq> set filePaths"
proof (induction paths arbitrary: acc)
  case Nil
  then show ?case by simp
next
  case (Cons q qs)
  from Cons.prems obtain pattern where q: "q = AnyString pattern"
    by (cases q) simp_all
  show ?case
  proof (cases "ContainsAny pattern ''*?[]''")
    case True
    with Cons.prems q obtain matches where
      g: "Glob fs (Join fs root pattern) = Inr matches"
      and r: "resolve_paths root fs qs (acc @ matches) = Inr filePaths"
      by (auto simp: Let_def split: sum.splits)
    from Cons.IH[OF r] show ?thesis by simp
  next
    case False
    with Cons.prems q have
      r: "resolve_paths root fs qs (acc @ [Join fs root pattern]) = Inr filePaths"
      by (simp add: Let_def)
    from Cons.IH[OF r] show ?thesis by simp
  qed
qed

lemma resolve_paths_requested:
  assumes "resolve_paths root fs paths acc = Inr filePaths"
    and "AnyString pattern \<in> set paths"
    and "if ContainsAny pattern ''*?[]''
         then (\<exists>matches. Glob fs (Join fs root pattern) = Inr matches \<and> p \<in> set matches)
         else p = Join fs root pattern"
  shows "p \<in> set filePaths"
  using assms(1,2)
proof (induction paths arbitrary: acc)
  case Nil
  then show ?case by simp
next
  case (Cons q qs)
  from Cons.prems(1) obtain pat where q: "q = AnyString pat"
    by (cases q) simp_all
  show ?case
  proof (cases "ContainsAny pat ''*?[]''")
    case True
    with Cons.prems(1) q obtain matches where
      g: "Glob fs (Join fs root pat) = Inr matches"
      and r: "resolve_paths root fs qs (acc @ matches) = Inr filePaths"
      by (auto simp: Let_def split: sum.splits)
    show ?thesis
    proof (cases "pat = pattern")
      case same: True
      with True assms(3) g have "p \<in> set matches" by auto
      with resolve_paths_keeps_acc[OF r] show ?thesis by auto
    next
      case False
      with Cons.prems(2) q have "AnyString pattern \<in> set qs" by simp
      from Cons.IH[OF r this] show ?thesis .
    qed
  next
    case nometa: False
    with Cons.prems(1) q have
      r: "resolve_paths root fs qs (acc @ [Join fs root pat]) = Inr filePaths"
      by (simp add: Let_def)
    show ?thesis
    proof (cases "pat = pattern")
      case True
      with nometa assms(3) have "p = Join fs root pat" by simp
      with resolve_paths_keeps_acc[OF r] show ?thesis by auto
    next
      case False
      with Cons.prems(2) q have "AnyString pattern \<in> set qs" by simp
      from Cons.IH[OF r this] show ?thesis .
    qed
  qed
qed

lemma unique_paths_distinct:
  "distinct acc \<Longrightarrow> \<forall>q \<in> set acc. seen q \<Longrightarrow> distinct (unique_paths seen ps acc)"
proof (induction ps arbitrary: seen acc)
  case Nil
  then show ?case by simp
next
  case (Cons q qs)
  show ?case
  proof (cases "seen q")
    case True
    then show ?thesis using Cons by simp
  next
    case False
    have d: "distinct (acc @ [q])" using Cons.prems False by auto
    have s: "\<forall>x \<in> set (acc @ [q]). (seen(q := True)) x" using Cons.prems(2) by simp
    have "distinct (unique_paths (seen(q := True)) qs (acc @ [q]))"
      by (rule Cons.IH[OF d s])
    with False show ?thesis by simp
  qed
qed

lemma entry_once:
  assumes "distinct ups" and "p \<in> set ups"
  shows "\<exists>before after. p \<notin> set before \<and> p \<notin> set after \<and>
           concat (map f ups) = concat (map f before) @ f p @ concat (map f after)"
proof -
  from assms(2) obtain before after where s: "ups = before @ p # after"
    by (auto simp: in_set_conv_decomp)
  with assms(1) have "p \<notin> set before" "p \<notin> set after" by auto
  with s show ?thesis by auto
qed

section \<open>Claims\<close>

text \<open>
  Claim C1. A function call whose name is not a key of the registry runs no tool: dispatch
  leaves the session as it was (the world and the log of \<open>Execute\<close> calls included) and
  gives the error \<open>unknown tool: <name>\<close>; the part adds exactly one error result with
  that message to the batch, and the loop goes on with the parts that follow.
\<close>

theorem unknown_tool_error_result:
  assumes "call_Name call \<notin> fst ` set reg" and "FunctionCall part = Some call"
  shows "dispatch reg ctx call st = (Inl (Errorf (''unknown tool: '' @ call_Name call)), st) \<and>
         process_part reg ctx (st, toolResponses, modelText) part =
           (st,
            toolResponses @
              [\<lparr>Text = '''', FunctionCall = None,
                FunctionResponse = Some \<lparr>resp_Name = call_Name call,
                  resp_Response =
                    [''error'' \<mapsto> AnyString (''unknown tool: '' @ call_Name call)]\<rparr>\<rparr>],
            modelText) \<and>
         foldl (process_part reg ctx) (st, toolResponses, modelText) (part # rest) =
           foldl (process_part reg ctx)
             (st,
              toolResponses @
                [\<lparr>Text = '''', FunctionCall = None,
                  FunctionResponse = Some \<lparr>resp_Name = call_Name call,
                    resp_Response =
                      [''error'' \<mapsto> AnyString (''unknown tool: '' @ call_Name call)]\<rparr>\<rparr>],
              modelText) rest"
proof -
  from assms(1) have "map_of reg (call_Name call) = None"
    by (simp add: map_of_eq_None_iff)
  then have d: "dispatch reg ctx call st = (Inl (Errorf (''unknown tool: '' @ call_Name call)), st)"
    by (rule dispatch_not_registered)
  then show ?thesis using assms(2) by (simp add: tool_response_def)
qed

theorem unknown_tool_error_result_witness:
  "call_Name \<lparr>call_Name = ''rm_rf'', call_Args = Map.empty\<rparr> \<notin> fst ` set [(''bump'', bump)] \<and>
   FunctionCall (call_part ''rm_rf'') = Some \<lparr>call_Name = ''rm_rf'', call_Args = Map.empty\<rparr> \<and>
   dispatch [(''bump'', bump)] Background \<lparr>call_Name = ''rm_rf'', call_Args = Map.empty\<rparr> session0
     = (Inl (Errorf ''unknown tool: rm_rf''), session0) \<and>
   fst (foldl (process_part [(''bump'', bump)] Background) (session0, [], '''')
      [call_part ''rm_rf'', call_part ''bump'']) = session0\<lparr>world := 1, executed := [(''bump'', Map.empty)]\<rparr>"
proof -
  have h1: "call_Name \<lparr>call_Name = ''rm_rf'', call_Args = Map.empty\<rparr> \<notin> fst ` set [(''bump'', bump)]"
    by simp
  have h2: "FunctionCall (call_part ''rm_rf'') = Some \<lparr>call_Name = ''rm_rf'', call_Args = Map.empty\<rparr>"
    by (simp add: call_part_def)
  show ?thesis
    using h1 h2 unknown_tool_error_result [OF h1 h2, of Background session0 "[]" "''''" "[call_part ''bump'']"]
    by (simp add: call_part_def dispatch_def bump_def session0_def)
qed

text \<open>
  Claim C2. A response with \<open>n \<ge> 1\<close> function-call parts makes one iteration of the loop
  dispatch the calls one after the other in the order they appear, which gives \<open>n\<close>
  results, the \<open>i\<close>-th a function response (no text) named after the \<open>i\<close>-th call;
  nothing is sent while they are made, and then the whole batch goes to the model client
  in a single \<open>SendMessage\<close>, before the loop reads another response.
\<close>

theorem tool_results_one_batch_in_call_order:
  assumes "1 \<le> length (function_calls r)"
  shows "toolCallLoop (Suc fuel) SendMessage reg ctx (Some r) st =
     (case dispatch_all reg ctx st (function_calls r) of
        (st1, batch) \<Rightarrow>
          (case SendMessage (chat st) batch of
             (Inl sendErr, chat') \<Rightarrow>
               (Break, st1\<lparr>chat := chat', sent := sent st @ [batch]\<rparr>)
           | (Inr resp', chat') \<Rightarrow>
               toolCallLoop fuel SendMessage reg ctx resp'
                 (st1\<lparr>chat := chat', sent := sent st @ [batch]\<rparr>))) \<and>
     length (snd (dispatch_all reg ctx st (function_calls r))) = length (function_calls r) \<and>
     (\<forall>i. i < length (function_calls r) \<longrightarrow>
        Text (snd (dispatch_all reg ctx st (function_calls r)) ! i) = '''' \<and>
        FunctionCall (snd (dispatch_all reg ctx st (function_calls r)) ! i) = None \<and>
        map_option resp_Name
            (FunctionResponse (snd (dispatch_all reg ctx st (function_calls r)) ! i))
          = Some (call_Name (function_calls r ! i)))"
proof -
  from assms have "function_calls r \<noteq> []" by auto
  then show ?thesis
    using toolCallLoop_batch[of r fuel SendMessage reg ctx st]
    by (simp add: length_dispatch_all dispatch_all_nth)
qed

theorem tool_results_one_batch_in_call_order_witness:
  "1 \<le> length (function_calls two_calls) \<and>
   toolCallLoop (Suc (Suc 0)) silent_chat [(''bump'', bump)] Background (Some two_calls) session0 =
     (Break,
      \<lparr>chat = 1, world = 1, executed = [(''bump'', Map.empty)],
       sent = [[\<lparr>Text = '''', FunctionCall = None,
                 FunctionResponse = Some \<lparr>resp_Name = ''bump'', resp_Response = Map.empty\<rparr>\<rparr>,
                \<lparr>Text = '''', FunctionCall = None,
                 FunctionResponse = Some \<lparr>resp_Name = ''rm_rf'',
                   resp_Response = [''error'' \<mapsto> AnyString ''unknown tool: rm_rf'']\<rparr>\<rparr>]],
       printed = [''No response candidates\<newline>'']\<rparr>)"
proof -
  have h: "1 \<le> length (function_calls two_calls)"
    by (simp add: function_calls_def all_parts_def two_calls_def call_part_def text_part_def)
  have fc: "function_calls two_calls =
      [\<lparr>call_Name = ''bump'', call_Args = Map.empty\<rparr>, \<lparr>call_Name = ''rm_rf'', call_Args = Map.empty\<rparr>]"
    by (simp add: function_calls_def all_parts_def two_calls_def call_part_def text_part_def)
  show ?thesis
    using h tool_results_one_batch_in_call_order
      [OF h, of "Suc 0" silent_chat "[(''bump'', bump)]" Background session0]
    by (simp add: fc dispatch_def bump_def session0_def silent_chat_def tool_response_def)
qed

text \<open>
  Claim C3, as the specification states it: a call whose context is cancelled before the
  process exits always signals the process group and never returns a result map. Both
  parts fail. A command made with \<open>exec.CommandContext\<close> is killed by the library once
  the context is done, so the process can be gone, and its wait result ready, by the
  time the executor acts. First, the executor signals the group only when
  \<open>syscall.Getpgid\<close> returns no error (lines 97 to 100): when the lookup fails, the call
  waits and returns the cancellation error without any \<open>Kill\<close>. Second, a \<open>select\<close>
  with both cases ready may take either: for a context that is done, the wait case
  returns the result map of the killed process.
\<close>

theorem cancel_without_group_counterexample:
  "RunShellCommandTool_Execute ''/proj'' reaped_env cancelled sleep_args =
     ([Started [''bash'', ''-c'', ''sleep 100''] ''/proj/src'', ReceivedDone], Inl Canceled) \<and>
   Done cancelled 0 \<and>
   RunShellCommandTool_Execute ''/proj'' killed_env cancelled sleep_args =
     ([Started [''bash'', ''-c'', ''sleep 100''] ''/proj/src'', ReceivedDone],
      Inr [''Command'' \<mapsto> AnyString ''sleep 100'', ''Directory'' \<mapsto> AnyString ''src'',
           ''Stdout'' \<mapsto> AnyString '''', ''Stderr'' \<mapsto> AnyString '''',
           ''Error'' \<mapsto> AnyString ''signal: killed'', ''Exit Code'' \<mapsto> AnyInt (- 1),
           ''Signal'' \<mapsto> AnyInt 9, ''Background PIDs'' \<mapsto> AnyList [],
           ''Process Group PGID'' \<mapsto> AnyInt 4242])"
  by (simp add: RunShellCommandTool_Execute_def Let_def reaped_env_def killed_env_def echo_env_def
      cancelled_def sleep_args_def directory_arg_def command_dir_def decode_status_def
      ExitStatus_def Exited_def Signaled_def Signal_def)

text \<open>
  Claim C3, amended. When the \<open>select\<close> takes the cancellation case (a context that is
  done does not ensure it once the wait result is ready too), the executor looks the
  process group up; if the lookup succeeds it sends \<open>SIGTERM\<close> to the negated group id,
  if it fails it sends nothing; in both cases it then blocks on \<open>done\<close> and returns
  \<open>ctx.Err()\<close> as the only outcome, never a result map.
\<close>

theorem cancel_signals_group_then_waits:
  assumes "args ''command'' = Some (AnyString cmdStr)"
    and "Start env [''bash'', ''-c'', cmdStr] (command_dir ProjectRoot env (directory_arg args))
           = Inr pid"
    and "select env = CtxDone"
  shows "RunShellCommandTool_Execute ProjectRoot env ctx args =
     ([Started [''bash'', ''-c'', cmdStr] (command_dir ProjectRoot env (directory_arg args))]
        @ (case Getpgid env pid of Some pgid \<Rightarrow> [Kill (- pgid) SIGTERM] | None \<Rightarrow> [])
        @ [ReceivedDone],
      Inl (Err ctx))"
  using assms by (simp add: RunShellCommandTool_Execute_def Let_def)

theorem cancel_signals_group_then_waits_witness:
  "sleep_args ''command'' = Some (AnyString ''sleep 100'') \<and>
   Start cancelled_env [''bash'', ''-c'', ''sleep 100'']
       (command_dir ''/proj'' cancelled_env (directory_arg sleep_args)) = Inr 4242 \<and>
   select cancelled_env = CtxDone \<and>
   RunShellCommandTool_Execute ''/proj'' cancelled_env cancelled sleep_args =
     ([Started [''bash'', ''-c'', ''sleep 100''] ''/proj/src'', Kill (- 4242) 15, ReceivedDone],
      Inl Canceled)"
proof -
  have h1: "sleep_args ''command'' = Some (AnyString ''sleep 100'')"
    by (simp add: sleep_args_def)
  have h2: "Start cancelled_env [''bash'', ''-c'', ''sleep 100'']
       (command_dir ''/proj'' cancelled_env (directory_arg sleep_args)) = Inr 4242"
    by (simp add: cancelled_env_def echo_env_def)
  have h3: "select cancelled_env = CtxDone"
    by (simp add: cancelled_env_def echo_env_def)
  have d: "command_dir ''/proj'' cancelled_env (directory_arg sleep_args) = ''/proj/src''"
    by (simp add: command_dir_def directory_arg_def sleep_args_def cancelled_env_def echo_env_def)
  have g: "Getpgid cancelled_env 4242 = Some 4242"
    by (simp add: cancelled_env_def echo_env_def)
  show ?thesis
    using h1 h2 h3 cancel_signals_group_then_waits [OF h1 h2 h3, of cancelled]
    by (simp add: d g SIGTERM_def cancelled_def)
qed

text \<open>
  Claim C4. When the process is waited for and \<open>cmd.Wait()\<close> returns nil (the process
  exited with status 0), the call succeeds with exit code 0, the signal sentinel \<open>-1\<close>
  and the error text \<open>(none)\<close>, and with all of standard output and standard error. The
  instance that follows is \<open>echo hello\<close>.
\<close>

theorem clean_exit_result:
  assumes "args ''command'' = Some (AnyString cmdStr)"
    and "Start env [''bash'', ''-c'', cmdStr] (command_dir ProjectRoot env (directory_arg args))
           = Inr pid"
    and "select env = WaitDone"
    and "Wait env = None"
  shows "field (snd (RunShellCommandTool_Execute ProjectRoot env ctx args)) ''Exit Code''
           = Some (AnyInt 0) \<and>
         field (snd (RunShellCommandTool_Execute ProjectRoot env ctx args)) ''Signal''
           = Some (AnyInt (- 1)) \<and>
         field (snd (RunShellCommandTool_Execute ProjectRoot env ctx args)) ''Error''
           = Some (AnyString ''(none)'') \<and>
         field (snd (RunShellCommandTool_Execute ProjectRoot env ctx args)) ''Stdout''
           = Some (AnyString (Stdout env)) \<and>
         field (snd (RunShellCommandTool_Execute ProjectRoot env ctx args)) ''Stderr''
           = Some (AnyString (Stderr env))"
  using assms
  by (simp add: RunShellCommandTool_Execute_def Let_def decode_status_def field_def)

theorem clean_exit_result_witness:
  "echo_args ''command'' = Some (AnyString ''echo hello'') \<and>
   Start echo_env [''bash'', ''-c'', ''echo hello'']
       (command_dir ''/proj'' echo_env (directory_arg echo_args)) = Inr 4242 \<and>
   select echo_env = WaitDone \<and> Wait echo_env = None \<and>
   field (snd (RunShellCommandTool_Execute ''/proj'' echo_env Background echo_args)) ''Exit Code''
     = Some (AnyInt 0) \<and>
   field (snd (RunShellCommandTool_Execute ''/proj'' echo_env Background echo_args)) ''Signal''
     = Some (AnyInt (- 1)) \<and>
   field (snd (RunShellCommandTool_Execute ''/proj'' echo_env Background echo_args)) ''Error''
     = Some (AnyString ''(none)'') \<and>
   field (snd (RunShellCommandTool_Execute ''/proj'' echo_env Background echo_args)) ''Stdout''
     = Some (AnyString ''hello\<newline>'') \<and>
   field (snd (RunShellCommandTool_Execute ''/proj'' echo_env Background echo_args)) ''Stderr''
     = Some (AnyString '''')"
proof -
  have h1: "echo_args ''command'' = Some (AnyString ''echo hello'')"
    by (simp add: echo_args_def)
  have h2: "Start echo_env [''bash'', ''-c'', ''echo hello'']
       (command_dir ''/proj'' echo_env (directory_arg echo_args)) = Inr 4242"
    by (simp add: echo_env_def)
  have h3: "select echo_env = WaitDone" by (simp add: echo_env_def)
  have h4: "Wait echo_env = None" by (simp add: echo_env_def)
  have out: "Stdout echo_env = ''hello\<newline>''" "Stderr echo_env = ''''"
    by (simp_all add: echo_env_def)
  show ?thesis
    using h1 h2 h3 h4 clean_exit_result [OF h1 h2 h3 h4, of Background]
    by (simp add: out)
qed

text \<open>
  Claim C5. In every result map the exit code and the signal are never both meaningful:
  a signal other than \<open>-1\<close> comes with exit code \<open>-1\<close>; a process that exited (with
  status 0, or with a wait status that says so) has signal \<open>-1\<close> and its exit code; a
  process ended by a signal has that signal's number and exit code \<open>-1\<close>.
\<close>

theorem exit_code_and_signal_exclusive:
  assumes "snd (RunShellCommandTool_Execute ProjectRoot env ctx args) = Inr res"
  shows "(res ''Signal'' \<noteq> Some (AnyInt (- 1)) \<longrightarrow> res ''Exit Code'' = Some (AnyInt (- 1))) \<and>
         (Wait env = None \<longrightarrow> res ''Signal'' = Some (AnyInt (- 1))) \<and>
         (\<forall>msg status. Wait env = Some (ExitError msg (Some status)) \<and> Exited status \<longrightarrow>
            res ''Signal'' = Some (AnyInt (- 1)) \<and>
            res ''Exit Code'' = Some (AnyInt (uint (drop_bit 8 status) AND 0xFF))) \<and>
         (\<forall>msg status. Wait env = Some (ExitError msg (Some status)) \<and> Signaled status \<longrightarrow>
            res ''Signal'' = Some (AnyInt (uint (status AND 0x7F))) \<and>
            res ''Signal'' \<noteq> Some (AnyInt (- 1)) \<and>
            res ''Exit Code'' = Some (AnyInt (- 1)))"
proof -
  obtain exitCode signal cmdErr where d: "decode_status (Wait env) = (exitCode, signal, cmdErr)"
    by (cases "decode_status (Wait env)")
  from Execute_result_fields[OF assms] d
  have sig: "res ''Signal'' = Some (AnyInt signal)" and ec: "res ''Exit Code'' = Some (AnyInt exitCode)"
    by auto
  have a: "signal \<noteq> - 1 \<Longrightarrow> exitCode = - 1"
    using decode_status_exclusive[OF d] by simp
  have b: "Wait env = None \<Longrightarrow> signal = - 1"
    using d by (simp add: decode_status_def)
  have c: "\<And>msg status. Wait env = Some (ExitError msg (Some status)) \<Longrightarrow> Exited status \<Longrightarrow>
      signal = - 1 \<and> exitCode = uint (drop_bit 8 status) AND 0xFF"
    using d decode_status_exited by simp
  have e: "\<And>msg status. Wait env = Some (ExitError msg (Some status)) \<Longrightarrow> Signaled status \<Longrightarrow>
      signal = uint (status AND 0x7F) \<and> signal \<noteq> - 1 \<and> exitCode = - 1"
  proof -
    fix msg status
    assume w: "Wait env = Some (ExitError msg (Some status))" and sg: "Signaled status"
    from d w have "decode_status (Some (ExitError msg (Some status))) = (exitCode, signal, cmdErr)"
      by simp
    from decode_status_signaled[OF this sg]
    show "signal = uint (status AND 0x7F) \<and> signal \<noteq> - 1 \<and> exitCode = - 1" .
  qed
  show ?thesis using sig ec a b c e by auto
qed

theorem exit_code_and_signal_exclusive_witness:
  "snd (RunShellCommandTool_Execute ''/proj'' killed_env Background echo_args) =
     Inr [''Command'' \<mapsto> AnyString ''echo hello'', ''Directory'' \<mapsto> AnyString '''',
          ''Stdout'' \<mapsto> AnyString '''', ''Stderr'' \<mapsto> AnyString '''',
          ''Error'' \<mapsto> AnyString ''signal: killed'', ''Exit Code'' \<mapsto> AnyInt (- 1),
          ''Signal'' \<mapsto> AnyInt 9, ''Background PIDs'' \<mapsto> AnyList [],
          ''Process Group PGID'' \<mapsto> AnyInt 4242] \<and>
   snd (RunShellCommandTool_Execute ''/proj'' failed_env Background echo_args) =
     Inr [''Command'' \<mapsto> AnyString ''echo hello'', ''Directory'' \<mapsto> AnyString '''',
          ''Stdout'' \<mapsto> AnyString '''', ''Stderr'' \<mapsto> AnyString '''',
          ''Error'' \<mapsto> AnyString ''exit status 3'', ''Exit Code'' \<mapsto> AnyInt 3,
          ''Signal'' \<mapsto> AnyInt (- 1), ''Background PIDs'' \<mapsto> AnyList [],
          ''Process Group PGID'' \<mapsto> AnyInt 4242]"
proof -
  have k: "snd (RunShellCommandTool_Execute ''/proj'' killed_env Background echo_args) =
     Inr [''Command'' \<mapsto> AnyString ''echo hello'', ''Directory'' \<mapsto> AnyString '''',
          ''Stdout'' \<mapsto> AnyString '''', ''Stderr'' \<mapsto> AnyString '''',
          ''Error'' \<mapsto> AnyString ''signal: killed'', ''Exit Code'' \<mapsto> AnyInt (- 1),
          ''Signal'' \<mapsto> AnyInt 9, ''Background PIDs'' \<mapsto> AnyList [],
          ''Process Group PGID'' \<mapsto> AnyInt 4242]"
    by (simp add: RunShellCommandTool_Execute_def Let_def killed_env_def echo_env_def echo_args_def
        directory_arg_def command_dir_def decode_status_def ExitStatus_def Exited_def
        Signaled_def Signal_def)
  have f: "snd (RunShellCommandTool_Execute ''/proj'' failed_env Background echo_args) =
     Inr [''Command'' \<mapsto> AnyString ''echo hello'', ''Directory'' \<mapsto> AnyString '''',
          ''Stdout'' \<mapsto> AnyString '''', ''Stderr'' \<mapsto> AnyString '''',
          ''Error'' \<mapsto> AnyString ''exit status 3'', ''Exit Code'' \<mapsto> AnyInt 3,
          ''Signal'' \<mapsto> AnyInt (- 1), ''Background PIDs'' \<mapsto> AnyList [],
          ''Process Group PGID'' \<mapsto> AnyInt 4242]"
    by (simp add: RunShellCommandTool_Execute_def Let_def failed_env_def echo_env_def echo_args_def
        directory_arg_def command_dir_def decode_status_def ExitStatus_def Exited_def
        Signaled_def Signal_def)
  show ?thesis
    using k f exit_code_and_signal_exclusive [OF k] exit_code_and_signal_exclusive [OF f]
    by simp
qed

text \<open>
  Claim C6. The tool's declaration documents the field \<open>Directory\<close> as the directory
  relative to the project root ``or \<open>(root)\<close>''. The result carries the argument as it
  was read: a call without \<open>directory\<close> returns the empty string, not a root marker.
\<close>

theorem directory_field_unset_is_empty:
  "echo_args ''directory'' = None \<and>
   field (snd (RunShellCommandTool_Execute ''/proj'' echo_env Background echo_args)) ''Directory''
     = Some (AnyString '''') \<and>
   field (snd (RunShellCommandTool_Execute ''/proj'' echo_env Background echo_args)) ''Directory''
     \<noteq> Some (AnyString ''(root)'')"
  by (simp add: RunShellCommandTool_Execute_def Let_def echo_env_def echo_args_def directory_arg_def
      command_dir_def decode_status_def field_def)

text \<open>
  Claim C7, as the specification states it: once \<open>paths\<close> is an array the reader never
  returns an error. An entry that is not a string, and a pattern that \<open>filepath.Glob\<close>
  rejects, each abort the call with an error.
\<close>

theorem reader_errors_counterexample:
  "ReadManyFilesTool_Execute ''/proj'' project_fs Background
       [''paths'' \<mapsto> AnyList [AnyString ''a.txt'', AnyBool True]] =
     Inl (Errorf ''invalid path pattern: true'') \<and>
   ReadManyFilesTool_Execute ''/proj'' project_fs Background
       [''paths'' \<mapsto> AnyList [AnyString ''a.txt'', AnyString ''['']] =
     Inl (Errorf ''error globbing pattern [: syntax error in pattern'')"
  by (simp add: ReadManyFilesTool_Execute_def project_fs_def show_any_def ContainsAny_def)

text \<open>
  Claim C7, amended. When \<open>paths\<close> is an array of strings, every glob expansion
  succeeds and the context is not cancelled, the reader returns no error: the result is
  the single content string made of one entry per unique path, and a missing path, a
  path that cannot be examined, a directory, an unreadable file and a file with a null
  byte each give a marker line.
\<close>

theorem reader_degrades_per_file:
  assumes "args ''paths'' = Some (AnyList paths)"
    and "\<forall>p \<in> set paths. \<exists>pattern. p = AnyString pattern"
    and "\<forall>pattern. AnyString pattern \<in> set paths \<and> ContainsAny pattern ''*?[]'' \<longrightarrow>
           (\<exists>matches. Glob fs (Join fs root pattern) = Inr matches)"
    and "\<forall>k. \<not> Done ctx k"
  shows "(\<exists>filePaths. resolve_paths root fs paths [] = Inr filePaths \<and>
            ReadManyFilesTool_Execute root fs ctx args =
              Inr [''content'' \<mapsto>
                AnyString (concat (map (file_entry fs) (unique_paths (\<lambda>_. False) filePaths [])))]) \<and>
         (\<forall>p e. Stat fs p = Inl e \<and> IsNotExist e \<longrightarrow>
            file_entry fs p = ''---'' @ p @ '' (Not Found)---\<newline>'') \<and>
         (\<forall>p e. Stat fs p = Inl e \<and> \<not> IsNotExist e \<longrightarrow>
            file_entry fs p = ''---'' @ p @ '' (Error: '' @ message e @ '')---\<newline>'') \<and>
         (\<forall>p i. Stat fs p = Inr i \<and> IsDir i \<longrightarrow>
            file_entry fs p = ''---'' @ p @ '' (Directory)---\<newline>'') \<and>
         (\<forall>p i e. Stat fs p = Inr i \<and> \<not> IsDir i \<and> ReadFile fs p = Inl e \<longrightarrow>
            file_entry fs p = ''---'' @ p @ '' (Error reading: '' @ message e @ '')---\<newline>'') \<and>
         (\<forall>p i data. Stat fs p = Inr i \<and> \<not> IsDir i \<and> ReadFile fs p = Inr data \<and>
              CHR 0x00 \<in> set data \<longrightarrow>
            file_entry fs p = ''---'' @ p @ '' (Binary File, content not included)---\<newline>'')"
proof -
  from resolve_paths_ok[OF assms(2) assms(3), of "[]"]
  obtain filePaths where r: "resolve_paths root fs paths [] = Inr filePaths" by auto
  have "ReadManyFilesTool_Execute root fs ctx args =
      Inr [''content'' \<mapsto>
        AnyString (concat (map (file_entry fs) (unique_paths (\<lambda>_. False) filePaths [])))]"
    using assms(1) r read_files_no_cancel[OF assms(4)]
    by (simp add: ReadManyFilesTool_Execute_def)
  with r have first: "\<exists>filePaths. resolve_paths root fs paths [] = Inr filePaths \<and>
            ReadManyFilesTool_Execute root fs ctx args =
              Inr [''content'' \<mapsto>
                AnyString (concat (map (file_entry fs) (unique_paths (\<lambda>_. False) filePaths [])))]"
    by blast
  show ?thesis
    using first by (simp add: file_entry_def ContainsRune0_iff)
qed

theorem reader_degrades_per_file_witness:
  "ReadManyFilesTool_Execute ''/proj'' project_fs Background mixed_args =
     Inr [''content'' \<mapsto> AnyString
       (''---/proj/a.txt --- hi\<newline>\<newline>'' @
        ''---/proj/missing (Not Found)---\<newline>'' @
        ''---/proj/docs (Directory)---\<newline>'' @
        ''---/proj/bin.txt (Binary File, content not included)---\<newline>'' @
        ''---/proj/secret (Error reading: open /proj/secret: permission denied)---\<newline>'')]"
proof -
  have h1: "mixed_args ''paths'' = Some (AnyList mixed_paths)" by (simp add: mixed_args_def)
  have h2: "\<forall>p \<in> set mixed_paths. \<exists>pattern. p = AnyString pattern"
    by (simp add: mixed_paths_def)
  have h3: "\<forall>pattern. AnyString pattern \<in> set mixed_paths \<and> ContainsAny pattern ''*?[]'' \<longrightarrow>
           (\<exists>matches. Glob project_fs (Join project_fs ''/proj'' pattern) = Inr matches)"
    by (auto simp: mixed_paths_def project_fs_def ContainsAny_def)
  have h4: "\<forall>k. \<not> Done Background k" by (simp add: Background_def)
  have r: "resolve_paths ''/proj'' project_fs mixed_paths [] =
      Inr [''/proj/a.txt'', ''/proj/missing'', ''/proj/docs'', ''/proj/a.txt'',
           ''/proj/bin.txt'', ''/proj/secret'']"
    by (simp add: mixed_paths_def project_fs_def ContainsAny_def)
  have u: "unique_paths (\<lambda>_. False)
      [''/proj/a.txt'', ''/proj/missing'', ''/proj/docs'', ''/proj/a.txt'',
       ''/proj/bin.txt'', ''/proj/secret''] [] =
      [''/proj/a.txt'', ''/proj/missing'', ''/proj/docs'', ''/proj/bin.txt'', ''/proj/secret'']"
    by simp
  have e: "file_entry project_fs ''/proj/a.txt'' = ''---/proj/a.txt --- hi\<newline>\<newline>''"
    "file_entry project_fs ''/proj/missing'' = ''---/proj/missing (Not Found)---\<newline>''"
    "file_entry project_fs ''/proj/docs'' = ''---/proj/docs (Directory)---\<newline>''"
    "file_entry project_fs ''/proj/bin.txt'' =
       ''---/proj/bin.txt (Binary File, content not included)---\<newline>''"
    "file_entry project_fs ''/proj/secret'' =
       ''---/proj/secret (Error reading: open /proj/secret: permission denied)---\<newline>''"
    by (simp_all add: file_entry_def project_fs_def ContainsRune0_def)
  show ?thesis
    using reader_degrades_per_file
      [where args = mixed_args and paths = mixed_paths and fs = project_fs
         and root = "''/proj''" and ctx = Background, OF h1 h2 h3 h4]
    by (simp add: r u e)
qed

text \<open>
  Claim C8, as the specification states it: only the first candidate's parts are
  processed. The loop ranges over all candidates: a later candidate's function call is
  dispatched (here the tool runs) and its text is accumulated.
\<close>

theorem later_candidates_counterexample:
  "process_candidates [(''bump'', bump)] Background (session0, [], '''')
       [first_candidate, later_candidate] =
     (session0\<lparr>world := 1, executed := [(''bump'', Map.empty)]\<rparr>,
      [\<lparr>Text = '''', FunctionCall = None,
        FunctionResponse = Some \<lparr>resp_Name = ''bump'', resp_Response = Map.empty\<rparr>\<rparr>],
      ''firstsecond'') \<and>
   process_candidates [(''bump'', bump)] Background (session0, [], '''') [first_candidate] =
     (session0, [], ''first'') \<and>
   process_candidates [(''bump'', bump)] Background (session0, [], '''')
       [first_candidate, later_candidate] \<noteq>
     process_candidates [(''bump'', bump)] Background (session0, [], '''') [first_candidate]"
  by (simp add: process_candidates_def process_candidate_def first_candidate_def
      later_candidate_def call_part_def text_part_def dispatch_def bump_def session0_def
      tool_response_def)

text \<open>
  Claim C8, amended. The orchestrator processes the parts of every candidate that has
  content, candidate by candidate in response order: the function calls of all of them
  are dispatched in that order and the text of all of them is accumulated.
\<close>

theorem every_candidate_is_processed:
  "process_candidates reg ctx (st, [], '''') cands =
     (fst (dispatch_all reg ctx st (List.map_filter FunctionCall (all_parts cands))),
      snd (dispatch_all reg ctx st (List.map_filter FunctionCall (all_parts cands))),
      text_of (all_parts cands)) \<and>
   all_parts (c # cands) = (case Content c of None \<Rightarrow> [] | Some x \<Rightarrow> Parts x) @ all_parts cands"
  by (simp add: process_candidates_all_parts foldl_process_part all_parts_def)

text \<open>
  Claim C9. In a call that validates and is not cancelled, take any path the request
  names, literally or as a match of one of its globs, that is a file (not a directory)
  and can be read. The call succeeds, and its content holds the entry of that path
  exactly once, between the entries of the other paths: the marker line
  \<open>(Binary File, content not included)\<close>, with none of the file's content, when a null
  byte occurs anywhere in the file, whatever its name; the path marker followed by all
  of the file's content otherwise.
\<close>

theorem null_byte_means_binary:
  assumes "args ''paths'' = Some (AnyList paths)"
    and "\<forall>q \<in> set paths. \<exists>pat. q = AnyString pat"
    and "\<forall>pat. AnyString pat \<in> set paths \<and> ContainsAny pat ''*?[]'' \<longrightarrow>
           (\<exists>matches. Glob fs (Join fs root pat) = Inr matches)"
    and "\<forall>k. \<not> Done ctx k"
    and "AnyString pattern \<in> set paths"
    and "if ContainsAny pattern ''*?[]''
         then (\<exists>matches. Glob fs (Join fs root pattern) = Inr matches \<and> p \<in> set matches)
         else p = Join fs root pattern"
    and "Stat fs p = Inr info" and "\<not> IsDir info" and "ReadFile fs p = Inr data"
  shows "\<exists>before after. p \<notin> set before \<and> p \<notin> set after \<and>
           ReadManyFilesTool_Execute root fs ctx args =
             Inr [''content'' \<mapsto> AnyString
               (concat (map (file_entry fs) before) @
                (if CHR 0x00 \<in> set data
                 then ''---'' @ p @ '' (Binary File, content not included)---\<newline>''
                 else ''---'' @ p @ '' --- '' @ data @ ''\<newline>'') @
                concat (map (file_entry fs) after))]"
proof -
  from resolve_paths_ok[OF assms(2) assms(3), of "[]"]
  obtain filePaths where r: "resolve_paths root fs paths [] = Inr filePaths" by auto
  let ?ups = "unique_paths (\<lambda>_. False) filePaths []"
  have ex: "ReadManyFilesTool_Execute root fs ctx args =
      Inr [''content'' \<mapsto> AnyString (concat (map (file_entry fs) ?ups))]"
    using assms(1) r read_files_no_cancel[OF assms(4)]
    by (simp add: ReadManyFilesTool_Execute_def)
  have "p \<in> set filePaths"
    by (rule resolve_paths_requested[OF r assms(5) assms(6)])
  then have mem: "p \<in> set ?ups" by (simp add: unique_paths_set)
  have dist: "distinct ?ups" by (rule unique_paths_distinct) simp_all
  have entry: "file_entry fs p =
      (if CHR 0x00 \<in> set data
       then ''---'' @ p @ '' (Binary File, content not included)---\<newline>''
       else ''---'' @ p @ '' --- '' @ data @ ''\<newline>'')"
    using assms(7,8,9) by (simp add: file_entry_def ContainsRune0_iff)
  from entry_once[OF dist mem, of "file_entry fs"]
  obtain before after where
    "p \<notin> set before" "p \<notin> set after"
    "concat (map (file_entry fs) ?ups) =
       concat (map (file_entry fs) before) @ file_entry fs p @ concat (map (file_entry fs) after)"
    by blast
  then show ?thesis using ex entry by auto
qed

theorem null_byte_means_binary_witness:
  "(\<exists>before after. ''/proj/bin.txt'' \<notin> set before \<and> ''/proj/bin.txt'' \<notin> set after \<and>
      ReadManyFilesTool_Execute ''/proj'' project_fs Background mixed_args =
        Inr [''content'' \<mapsto> AnyString
          (concat (map (file_entry project_fs) before) @
           ''---/proj/bin.txt (Binary File, content not included)---\<newline>'' @
           concat (map (file_entry project_fs) after))]) \<and>
   (\<exists>before after. ''/proj/a.txt'' \<notin> set before \<and> ''/proj/a.txt'' \<notin> set after \<and>
      ReadManyFilesTool_Execute ''/proj'' project_fs Background text_by_glob_args =
        Inr [''content'' \<mapsto> AnyString
          (concat (map (file_entry project_fs) before) @
           ''---/proj/a.txt --- hi\<newline>\<newline>'' @
           concat (map (file_entry project_fs) after))]) \<and>
   ReadManyFilesTool_Execute ''/proj'' project_fs Background binary_only_args =
     Inr [''content'' \<mapsto>
       AnyString ''---/proj/bin.txt (Binary File, content not included)---\<newline>''] \<and>
   ReadManyFilesTool_Execute ''/proj'' project_fs Background text_by_glob_args =
     Inr [''content'' \<mapsto> AnyString ''---/proj/a.txt --- hi\<newline>\<newline>'']"
proof -
  have nc: "\<forall>k. \<not> Done Background k" by (simp add: Background_def)
  have m1: "mixed_args ''paths'' = Some (AnyList mixed_paths)" by (simp add: mixed_args_def)
  have m2: "\<forall>q \<in> set mixed_paths. \<exists>pat. q = AnyString pat" by (simp add: mixed_paths_def)
  have m3: "\<forall>pat. AnyString pat \<in> set mixed_paths \<and> ContainsAny pat ''*?[]'' \<longrightarrow>
           (\<exists>matches. Glob project_fs (Join project_fs ''/proj'' pat) = Inr matches)"
    by (auto simp: mixed_paths_def project_fs_def ContainsAny_def)
  have m5: "AnyString ''bin.txt'' \<in> set mixed_paths" by (simp add: mixed_paths_def)
  have m6: "if ContainsAny ''bin.txt'' ''*?[]''
         then (\<exists>matches. Glob project_fs (Join project_fs ''/proj'' ''bin.txt'') = Inr matches \<and>
                 ''/proj/bin.txt'' \<in> set matches)
         else ''/proj/bin.txt'' = Join project_fs ''/proj'' ''bin.txt''"
    by (simp add: ContainsAny_def project_fs_def)
  have b: "Stat project_fs ''/proj/bin.txt'' = Inr (FileInfo False)"
    "\<not> IsDir (FileInfo False)"
    "ReadFile project_fs ''/proj/bin.txt'' = Inr [CHR ''P'', CHR 0x00, CHR ''K'']"
    by (simp_all add: project_fs_def)
  have g1: "text_by_glob_args ''paths'' = Some (AnyList [AnyString ''*.txt''])"
    by (simp add: text_by_glob_args_def)
  have g2: "\<forall>q \<in> set [AnyString ''*.txt'']. \<exists>pat. q = AnyString pat" by simp
  have g3: "\<forall>pat. AnyString pat \<in> set [AnyString ''*.txt''] \<and> ContainsAny pat ''*?[]'' \<longrightarrow>
           (\<exists>matches. Glob project_fs (Join project_fs ''/proj'' pat) = Inr matches)"
    by (simp add: project_fs_def)
  have g5: "AnyString ''*.txt'' \<in> set [AnyString ''*.txt'']" by simp
  have g6: "if ContainsAny ''*.txt'' ''*?[]''
         then (\<exists>matches. Glob project_fs (Join project_fs ''/proj'' ''*.txt'') = Inr matches \<and>
                 ''/proj/a.txt'' \<in> set matches)
         else ''/proj/a.txt'' = Join project_fs ''/proj'' ''*.txt''"
    by (simp add: ContainsAny_def project_fs_def)
  have t: "Stat project_fs ''/proj/a.txt'' = Inr (FileInfo False)"
    "ReadFile project_fs ''/proj/a.txt'' = Inr ''hi\<newline>''"
    by (simp_all add: project_fs_def)
  have e1: "ReadManyFilesTool_Execute ''/proj'' project_fs Background binary_only_args =
     Inr [''content'' \<mapsto>
       AnyString ''---/proj/bin.txt (Binary File, content not included)---\<newline>'']"
    by (simp add: ReadManyFilesTool_Execute_def binary_only_args_def project_fs_def
        ContainsAny_def Background_def file_entry_def ContainsRune0_def)
  have e2: "ReadManyFilesTool_Execute ''/proj'' project_fs Background text_by_glob_args =
     Inr [''content'' \<mapsto> AnyString ''---/proj/a.txt --- hi\<newline>\<newline>'']"
    by (simp add: ReadManyFilesTool_Execute_def text_by_glob_args_def project_fs_def
        ContainsAny_def Background_def file_entry_def ContainsRune0_def)
  show ?thesis
    using e1 e2
      null_byte_means_binary
        [where args = mixed_args and paths = mixed_paths and fs = project_fs
           and root = "''/proj''" and ctx = Background and pattern = "''bin.txt''"
           and p = "''/proj/bin.txt''", OF m1 m2 m3 nc m5 m6 b]
      null_byte_means_binary
        [where args = text_by_glob_args and paths = "[AnyString ''*.txt'']" and fs = project_fs
           and root = "''/proj''" and ctx = Background and pattern = "''*.txt''"
           and p = "''/proj/a.txt''", OF g1 g2 g3 nc g5 g6 t(1) b(2) t(2)]
    by simp
qed

text \<open>
  Claim C10. The registry \<open>main\<close> builds is empty, so no declaration is collected and no
  tool is given to the model client; every function call dispatched on it gets the
  unknown-tool error, and a run of \<open>main\<close>, however long and whatever the model answers,
  calls no \<open>Execute\<close> and leaves the world as it was.
\<close>

theorem startup_registry_empty_no_tool_runs:
  "(toolRegistry :: 'w registry) = [] \<and>
   functionDeclarations (toolRegistry :: 'w registry) = [] \<and>
   genaiTools (toolRegistry :: 'w registry) = [] \<and>
   dispatch (toolRegistry :: 'w registry) ctx call (st :: ('c, 'w) session) =
     (Inl (Errorf (''unknown tool: '' @ call_Name call)), st) \<and>
   (main fuel apiKey NewClient ChatsCreate SendMessage inputs (w :: 'w) = Inr (ex, st') \<longrightarrow>
      executed st' = [] \<and> world st' = w)"
proof -
  have "main fuel apiKey NewClient ChatsCreate SendMessage inputs w = Inr (ex, st') \<Longrightarrow>
      executed st' = [] \<and> world st' = w"
  proof -
    assume m: "main fuel apiKey NewClient ChatsCreate SendMessage inputs w = Inr (ex, st')"
    then obtain c where run: "input_loop fuel SendMessage [] Background inputs
        \<lparr>chat = c, world = w, executed = [], sent = [],
         printed = [''Enter your messages (type 'quit' to exit):\<newline>'']\<rparr> = (ex, st')"
      by (auto simp: main_def toolRegistry_def split: if_splits sum.splits)
    show ?thesis
      using input_loop_empty_registry[of fuel SendMessage Background inputs
        "\<lparr>chat = c, world = w, executed = [], sent = [],
          printed = [''Enter your messages (type 'quit' to exit):\<newline>'']\<rparr>"] run
      by simp
  qed
  then show ?thesis
    by (simp add: toolRegistry_def functionDeclarations_def genaiTools_def dispatch_empty_registry)
qed

theorem startup_registry_empty_no_tool_runs_witness:
  "main 3 ''key'' (\<lambda>k. Inr ()) (\<lambda>client model tools. Inr 0) asks_once [''hello''] (0 :: nat) =
     Inr (Break,
       \<lparr>chat = 2, world = 0, executed = [],
        sent = [[text_part ''hello''],
                [\<lparr>Text = '''', FunctionCall = None,
                  FunctionResponse = Some \<lparr>resp_Name = ''bump'',
                    resp_Response = [''error'' \<mapsto> AnyString ''unknown tool: bump'']\<rparr>\<rparr>,
                 \<lparr>Text = '''', FunctionCall = None,
                  FunctionResponse = Some \<lparr>resp_Name = ''rm_rf'',
                    resp_Response = [''error'' \<mapsto> AnyString ''unknown tool: rm_rf'']\<rparr>\<rparr>]],
        printed = [''Enter your messages (type 'quit' to exit):\<newline>'', ''> '',
                   ''No response candidates\<newline>'', ''> '']\<rparr>) \<and>
   executed
       \<lparr>chat = 2 :: nat, world = 0 :: nat, executed = [],
        sent = [[text_part ''hello''],
                [\<lparr>Text = '''', FunctionCall = None,
                  FunctionResponse = Some \<lparr>resp_Name = ''bump'',
                    resp_Response = [''error'' \<mapsto> AnyString ''unknown tool: bump'']\<rparr>\<rparr>,
                 \<lparr>Text = '''', FunctionCall = None,
                  FunctionResponse = Some \<lparr>resp_Name = ''rm_rf'',
                    resp_Response = [''error'' \<mapsto> AnyString ''unknown tool: rm_rf'']\<rparr>\<rparr>]],
        printed = [''Enter your messages (type 'quit' to exit):\<newline>'', ''> '',
                   ''No response candidates\<newline>'', ''> '']\<rparr> = []"
proof -
  have run: "main 3 ''key'' (\<lambda>k. Inr ()) (\<lambda>client model tools. Inr 0) asks_once [''hello''] (0 :: nat) =
     Inr (Break,
       \<lparr>chat = 2, world = 0, executed = [],
        sent = [[text_part ''hello''],
                [\<lparr>Text = '''', FunctionCall = None,
                  FunctionResponse = Some \<lparr>resp_Name = ''bump'',
                    resp_Response = [''error'' \<mapsto> AnyString ''unknown tool: bump'']\<rparr>\<rparr>,
                 \<lparr>Text = '''', FunctionCall = None,
                  FunctionResponse = Some \<lparr>resp_Name = ''rm_rf'',
                    resp_Response = [''error'' \<mapsto> AnyString ''unknown tool: rm_rf'']\<rparr>\<rparr>]],
        printed = [''Enter your messages (type 'quit' to exit):\<newline>'', ''> '',
                   ''No response candidates\<newline>'', ''> '']\<rparr>)"
    by (simp add: main_def toolRegistry_def genaiTools_def functionDeclarations_def asks_once_def
        two_calls_def call_part_def text_part_def numeral_3_eq_3 process_candidates_def
        process_candidate_def dispatch_def tool_response_def)
  show ?thesis
    using run startup_registry_empty_no_tool_runs
      [of Background "\<lparr>call_Name = ''bump'', call_Args = Map.empty\<rparr>" session0 3 "''key''" "\<lambda>k. Inr ()"
          "\<lambda>client model tools. Inr 0" asks_once "[''hello'']" 0 Break]
    by simp
qed

end
